theory Spec2Isabelle
  imports Main "HOL-Library.Word"
begin

section \<open>Values exchanged by the inference service\<close>

text \<open>
  Python \<open>str\<close> is modelled by its UTF-8 byte sequence, so \<open>str\<close> and \<open>bytes\<close>
  share the carrier \<open>char list\<close> and \<open>s.encode('utf-8')\<close> is the identity. Every
  marker the code compares with is ASCII, hence \<open>startswith\<close> and the slice \<open>k[12:]\<close>
  agree with \<open>take\<close> and \<open>drop\<close> on the bytes.
\<close>

type_synonym bytes = string

type_synonym device = string

datatype dtype = UInt8 | Float32 | Float64 | OtherDtype string

record ndarray =
  arr_dtype :: dtype
  arr_shape :: "nat list"
  arr_data :: bytes

datatype model_handle = ModelHandle nat

text \<open>
  The Python objects that travel through the codecs. A \<open>dict\<close> keeps insertion order
  and has string keys (the payloads of the service); \<open>PObject\<close> stands for any other
  object, identified by a number, that has neither the attribute \<open>items\<close> nor
  \<open>encode\<close>.
\<close>

datatype pyobj =
    PNone
  | PBool bool
  | PInt int
  | PFloat "64 word"
  | PStr string
  | PArray ndarray
  | PTensor ndarray "device option"
  | PList "pyobj list"
  | PDict "(string \<times> pyobj) list"
  | PObject nat

type_synonym pydict = "(string \<times> pyobj) list"

text \<open>
  Exceptions, by the classes the code distinguishes in its \<open>except\<close> clauses; each
  carries the text \<open>str(e)\<close> yields.
\<close>

datatype exn =
    RuntimeError string
  | ValueError string
  | AttributeError string
  | Timeout string
  | ConnectionError string
  | RequestException string
  | OtherException string

fun exn_str :: "exn \<Rightarrow> string" where
  "exn_str (RuntimeError m) = m"
| "exn_str (ValueError m) = m"
| "exn_str (AttributeError m) = m"
| "exn_str (Timeout m) = m"
| "exn_str (ConnectionError m) = m"
| "exn_str (RequestException m) = m"
| "exn_str (OtherException m) = m"

text \<open>
  What no \<open>except Exception\<close> clause catches: an exception outside the class
  \<open>Exception\<close> (\<open>SystemExit\<close>, \<open>KeyboardInterrupt\<close>), which a bare \<open>except:\<close> still
  catches, or the end of the process (\<open>os._exit\<close>), which nothing catches.
\<close>

datatype escape = BaseExc string | ProcessEnd

text \<open>
  A call that runs code chosen by its input ends in one of three ways: it raises an
  exception of class \<open>Exception\<close> (\<open>Inl e\<close>), it returns (\<open>Inr (Returned v)\<close>), or it is
  left by an escape (\<open>Inr (Escaped x)\<close>).
\<close>

datatype 'a finish = Returned 'a | Escaped escape

text \<open>What leaves a request handler instead of a response.\<close>

datatype uncaught = Unhandled exn | Exit escape

section \<open>Files and archives\<close>

text \<open>
  The file system, as far as the model hot-swap touches it: an association list from
  absolute normalized paths to nodes, the root directory implied. Symbolic links are not
  modelled. An archive is the list of its members.
\<close>

datatype node = File bytes | Dir

type_synonym filesystem = "(string \<times> node) list"

record tar_member =
  member_name :: string
  member_isdir :: bool
  member_data :: bytes

text \<open>
  The libraries and collaborators the repository calls but does not contain. They are
  parameters of every operation below; a function that may raise returns a sum with the
  exception on the left. \<open>pickle.loads\<close> runs the callables its input names, so it can
  also be left by an escape; \<open>time.sleep\<close> returns or raises (on a negative length, on
  one that is not a number or is too large). \<open>load_model\<close> and \<open>model_inference\<close> are the two functions
  of \<open>server.py\<close> whose bodies are placeholders (\<open>Replace this function with your actual
  model loading logic\<close>), and \<open>predict_action_chunk\<close> is the policy of the textual
  server: the model is a collaborator that may raise.
\<close>

record libs =
  pickle_dumps :: "pyobj \<Rightarrow> exn + bytes"
  pickle_loads :: "bytes \<Rightarrow> exn + pyobj finish"
  py_repr :: "pyobj \<Rightarrow> string"
  object_type_name :: "nat \<Rightarrow> string"
  time_sleep :: "pyobj \<Rightarrow> exn option"
  np_save :: "ndarray \<Rightarrow> exn + bytes"
  np_load :: "bytes \<Rightarrow> exn + ndarray"
  b64encode :: "bytes \<Rightarrow> string"
  b64decode :: "string \<Rightarrow> exn + bytes"
  json_dumps :: "pyobj \<Rightarrow> exn + string"
  json_loads :: "string \<Rightarrow> exn + pyobj"
  utf8_decode :: "bytes \<Rightarrow> exn + string"
  gzip_compress :: "bytes \<Rightarrow> bytes"
  gzip_decompress :: "bytes \<Rightarrow> exn + bytes"
  torch_device :: "string \<Rightarrow> exn + device"
  to_tensor :: "ndarray \<Rightarrow> device option \<Rightarrow> exn + pyobj"
  tarfile_open :: "bytes \<Rightarrow> exn + tar_member list"
  load_model :: "string \<Rightarrow> device option \<Rightarrow> filesystem \<Rightarrow> exn + model_handle"
  model_inference :: "model_handle \<Rightarrow> device option \<Rightarrow> pyobj \<Rightarrow> exn + pyobj"
  predict_action_chunk :: "model_handle \<Rightarrow> pyobj \<Rightarrow> exn + ndarray"

section \<open>Decimal text of integers, as f-strings print them\<close>

definition digit_char :: "nat \<Rightarrow> char" where
  "digit_char d = ''0123456789'' ! d"

function str_nat :: "nat \<Rightarrow> string" where
  "str_nat n = (if n < 10 then [digit_char n] else str_nat (n div 10) @ [digit_char (n mod 10)])"
  by pat_completeness auto
termination
  by (relation "measure id") auto

declare str_nat.simps [simp del]

definition str_int :: "int \<Rightarrow> string" where
  "str_int i = (if i < 0 then CHR ''-'' # str_nat (nat (- i)) else str_nat (nat i))"

text \<open>\<open>str(v)\<close> inside an f-string: a string prints as itself, anything else by the
  library's \<open>repr\<close>.\<close>

fun py_str :: "libs \<Rightarrow> pyobj \<Rightarrow> string" where
  "py_str L (PStr s) = s"
| "py_str L v = py_repr L v"

text \<open>The name of an object's type, and the \<open>AttributeError\<close> raised when an
  attribute it lacks is asked for.\<close>

definition quote :: char where
  "quote = CHR 0x27"

definition quoted :: "string \<Rightarrow> string" where
  "quoted s = quote # s @ [quote]"

fun type_name :: "libs \<Rightarrow> pyobj \<Rightarrow> string" where
  "type_name L PNone = ''NoneType''"
| "type_name L (PBool b) = ''bool''"
| "type_name L (PInt i) = ''int''"
| "type_name L (PFloat f) = ''float''"
| "type_name L (PStr s) = ''str''"
| "type_name L (PArray a) = ''numpy.ndarray''"
| "type_name L (PTensor a d) = ''Tensor''"
| "type_name L (PList l) = ''list''"
| "type_name L (PDict d) = ''dict''"
| "type_name L (PObject n) = object_type_name L n"

definition no_attribute :: "libs \<Rightarrow> pyobj \<Rightarrow> string \<Rightarrow> exn" where
  "no_attribute L v name =
     AttributeError (quoted (type_name L v) @ '' object has no attribute '' @ quoted name)"

text \<open>\<open>s[:n]\<close> counts characters; in UTF-8 a character is a byte that is not a
  continuation byte, with the continuation bytes that follow it.\<close>

definition is_continuation :: "char \<Rightarrow> bool" where
  "is_continuation c = (128 \<le> (of_char c :: nat) \<and> (of_char c :: nat) < 192)"

fun utf8_take :: "nat \<Rightarrow> string \<Rightarrow> string" where
  "utf8_take n [] = []"
| "utf8_take n (c # cs) =
     (if is_continuation c then c # utf8_take n cs
      else (case n of 0 \<Rightarrow> [] | Suc m \<Rightarrow> c # utf8_take m cs))"

section \<open>binary\_protocol.py\<close>

definition dict_to_binary :: "libs \<Rightarrow> pyobj \<Rightarrow> exn + bytes" where
  "dict_to_binary L data = pickle_dumps L data"

definition binary_to_dict :: "libs \<Rightarrow> bytes \<Rightarrow> exn + pyobj finish" where
  "binary_to_dict L data = pickle_loads L data"

section \<open>request\_tools.py: the transport client\<close>

record response =
  status_code :: int
  content :: bytes
  resp_text :: string

text \<open>What one call of \<open>requests.post\<close> does: it returns a response, raises an
  exception of class \<open>Exception\<close>, or is left by an escape. The arguments \<open>url\<close>,
  \<open>headers\<close> and \<open>timeout\<close> only reach that call, so they are part of the endpoint
  whose outcomes the client is given.\<close>

datatype outcome = Resp response | Raise exn | Leave escape

text \<open>The effects of the client, in the order they happen.\<close>

datatype event = EvPost bytes | EvSleep pyobj | EvPrint string



definition attempt_prefix :: "int \<Rightarrow> int \<Rightarrow> string" where
  "attempt_prefix attempt max_retries =
     ''[Attempt '' @ str_int (attempt + 1) @ ''/'' @ str_int (max_retries + 1) @ ''] ''"

text \<open>
  The text \<open>error_msg\<close> of a non-200 response (lines 56-64 of the file). The bare
  \<open>except:\<close> around the decoding of the body catches every exception, whatever its
  class.
\<close>

definition server_error_msg :: "libs \<Rightarrow> response \<Rightarrow> string" where
  "server_error_msg L resp =
     ''HTTP '' @ str_int (status_code resp) @
       (case binary_to_dict L (content resp) of
          Inr (Returned (PDict err_data)) \<Rightarrow>
            (case map_of err_data ''message'' of
               Some m \<Rightarrow> '': '' @ py_str L m
             | None \<Rightarrow> '': '' @ utf8_take 200 (resp_text resp))
        | other \<Rightarrow> '': '' @ utf8_take 200 (resp_text resp))"

text \<open>
  One pass through the body of the \<open>try\<close> statement: the function returns a value,
  or an exception is stored in \<open>last_exception\<close> and a line printed, or an escape
  passes every \<open>except\<close> clause and leaves the function.
\<close>

datatype attempt_end = Returns pyobj | Records exn string | Leaves escape

definition attempt_once :: "libs \<Rightarrow> int \<Rightarrow> int \<Rightarrow> outcome \<Rightarrow> attempt_end" where
  "attempt_once L attempt max_retries out =
     (case out of
        Resp resp \<Rightarrow>
          (if status_code resp = 200 then
             (case binary_to_dict L (content resp) of
                Inr (Returned result_dict) \<Rightarrow> Returns result_dict
              | Inr (Escaped x) \<Rightarrow> Leaves x
              | Inl deserialize_err \<Rightarrow>
                  (let e = RuntimeError (''Failed to deserialize response: '' @ exn_str deserialize_err)
                   in Records e (attempt_prefix attempt max_retries @ ''Unexpected error: '' @ exn_str e)))
           else
             (case binary_to_dict L (content resp) of
                Inr (Escaped ProcessEnd) \<Rightarrow> Leaves ProcessEnd
              | other \<Rightarrow>
                  (let error_msg = server_error_msg L resp
                   in Records (RuntimeError error_msg)
                        (attempt_prefix attempt max_retries @ ''Server error: '' @ error_msg))))
      | Leave x \<Rightarrow> Leaves x
      | Raise (Timeout m) \<Rightarrow>
          Records (Timeout m) (attempt_prefix attempt max_retries @ ''Request timeout: '' @ m)
      | Raise (ConnectionError m) \<Rightarrow>
          Records (ConnectionError m) (attempt_prefix attempt max_retries @ ''Connection error: '' @ m)
      | Raise (RequestException m) \<Rightarrow>
          Records (RequestException m) (attempt_prefix attempt max_retries @ ''Network error: '' @ m)
      | Raise e \<Rightarrow>
          Records e (attempt_prefix attempt max_retries @ ''Unexpected error: '' @ exn_str e))"

definition last_error_str :: "exn option \<Rightarrow> string" where
  "last_error_str last_exception = (case last_exception of None \<Rightarrow> ''None'' | Some e \<Rightarrow> exn_str e)"

text \<open>
  The \<open>for attempt in range(max_retries + 1)\<close> loop, over the attempts still to make.
  \<open>post\<close> is the endpoint: the outcome of the POST of each attempt. \<open>time.sleep\<close> is
  called outside the \<open>try\<close> statement, so what it raises leaves the function.
\<close>

fun retry_loop ::
  "libs \<Rightarrow> (int \<Rightarrow> outcome) \<Rightarrow> bytes \<Rightarrow> int \<Rightarrow> pyobj \<Rightarrow> int list \<Rightarrow> exn option \<Rightarrow> event list
     \<Rightarrow> (exn + pyobj finish) \<times> event list" where
  "retry_loop L post req_body max_retries retry_delay [] last_exception tr =
     (Inl (RuntimeError (''Failed after '' @ str_int (max_retries + 1) @ '' attempts. Last error: ''
             @ last_error_str last_exception)), tr)"
| "retry_loop L post req_body max_retries retry_delay (attempt # rest) last_exception tr =
     (case attempt_once L attempt max_retries (post attempt) of
        Returns result_dict \<Rightarrow> (Inr (Returned result_dict), tr @ [EvPost req_body])
      | Leaves x \<Rightarrow> (Inr (Escaped x), tr @ [EvPost req_body])
      | Records e line \<Rightarrow>
          (let tr1 = tr @ [EvPost req_body, EvPrint line] in
           if attempt < max_retries then
             (case time_sleep L retry_delay of
                Some err \<Rightarrow> (Inl err, tr1)
              | None \<Rightarrow>
                  retry_loop L post req_body max_retries retry_delay rest (Some e)
                    (tr1 @ [EvSleep retry_delay]))
           else retry_loop L post req_body max_retries retry_delay rest (Some e) tr1))"

text \<open>\<open>range(n)\<close> for an integer \<open>n\<close>: empty when \<open>n \<le> 0\<close>.\<close>

definition py_range :: "int \<Rightarrow> int list" where
  "py_range n = map int [0..<nat n]"

definition send_inference_request ::
  "libs \<Rightarrow> (int \<Rightarrow> outcome) \<Rightarrow> pyobj \<Rightarrow> int \<Rightarrow> pyobj \<Rightarrow> (exn + pyobj finish) \<times> event list" where
  "send_inference_request L post data_dict max_retries retry_delay =
     (case dict_to_binary L data_dict of
        Inl e \<Rightarrow> (Inl (RuntimeError (''Failed to serialize request data: '' @ exn_str e)), [])
      | Inr req_body \<Rightarrow>
          retry_loop L post req_body max_retries retry_delay (py_range (max_retries + 1)) None [])"

text \<open>
  An attempt fails, in the way the client's \<open>except\<close> clauses handle, when the POST
  raises an exception of class \<open>Exception\<close> (a timeout, a connection error, any other),
  when it answers 200 with a body whose decoding raises such an exception, or when it
  answers with another status and reading the error body does not end the process.
\<close>

definition attempt_fails :: "libs \<Rightarrow> outcome \<Rightarrow> bool" where
  "attempt_fails L out =
     (case out of
        Raise e \<Rightarrow> True
      | Leave x \<Rightarrow> False
      | Resp resp \<Rightarrow>
          (if status_code resp = 200 then isl (binary_to_dict L (content resp))
           else binary_to_dict L (content resp) \<noteq> Inr (Escaped ProcessEnd)))"


section \<open>Python dictionaries\<close>

text \<open>\<open>d[k] = v\<close> on an insertion-ordered dictionary: an existing key keeps its place.\<close>

fun dict_set :: "('k \<times> 'v) list \<Rightarrow> 'k \<Rightarrow> 'v \<Rightarrow> ('k \<times> 'v) list" where
  "dict_set [] k v = [(k, v)]"
| "dict_set ((k', v') # d) k v = (if k' = k then (k', v) # d else (k', v') # dict_set d k v)"

section \<open>Flask\_Demo1/base64\_tools.py: the textual codec\<close>

definition serialize_np :: "libs \<Rightarrow> ndarray \<Rightarrow> exn + string" where
  "serialize_np L arr =
     (case np_save L arr of
        Inl e \<Rightarrow> Inl e
      | Inr buffer \<Rightarrow> Inr (b64encode L buffer))"

text \<open>Only a \<open>str\<close> has the method \<open>encode\<close> the function starts with.\<close>

fun deserialize_np :: "libs \<Rightarrow> pyobj \<Rightarrow> exn + ndarray" where
  "deserialize_np L (PStr b64_str) =
     (case b64decode L b64_str of
        Inl e \<Rightarrow> Inl e
      | Inr data \<Rightarrow> np_load L data)"
| "deserialize_np L v = Inl (no_attribute L v ''encode'')"

text \<open>The loop of \<open>serialize_dict\<close> over \<open>d.items()\<close>, with \<open>serialize_d\<close> built so far.
  A tensor is turned into its array by \<open>v.detach().cpu().numpy()\<close>.\<close>

fun serialize_items :: "libs \<Rightarrow> pydict \<Rightarrow> pydict \<Rightarrow> exn + pydict" where
  "serialize_items L [] serialize_d = Inr serialize_d"
| "serialize_items L ((k, v) # rest) serialize_d =
     (case v of
        PArray arr \<Rightarrow>
          (case serialize_np L arr of
             Inl e \<Rightarrow> Inl e
           | Inr s \<Rightarrow> serialize_items L rest (dict_set serialize_d (''base64numpy_'' @ k) (PStr s)))
      | PTensor arr dev \<Rightarrow>
          (case serialize_np L arr of
             Inl e \<Rightarrow> Inl e
           | Inr s \<Rightarrow> serialize_items L rest (dict_set serialize_d (''base64torch_'' @ k) (PStr s)))
      | other \<Rightarrow> serialize_items L rest (dict_set serialize_d k v))"

fun serialize_dict :: "libs \<Rightarrow> pyobj \<Rightarrow> exn + pyobj" where
  "serialize_dict L (PDict d) =
     (case serialize_items L d [] of Inl e \<Rightarrow> Inl e | Inr serialize_d \<Rightarrow> Inr (PDict serialize_d))"
| "serialize_dict L v = Inl (no_attribute L v ''items'')"

fun deserialize_items :: "libs \<Rightarrow> device option \<Rightarrow> pydict \<Rightarrow> pydict \<Rightarrow> exn + pydict" where
  "deserialize_items L dev [] deserialize_d = Inr deserialize_d"
| "deserialize_items L dev ((k, v) # rest) deserialize_d =
     (if take 12 k = ''base64numpy_'' then
        (case deserialize_np L v of
           Inl e \<Rightarrow> Inl e
         | Inr arr \<Rightarrow> deserialize_items L dev rest (dict_set deserialize_d (drop 12 k) (PArray arr)))
      else if take 12 k = ''base64torch_'' then
        (case deserialize_np L v of
           Inl e \<Rightarrow> Inl e
         | Inr arr \<Rightarrow>
             (case to_tensor L arr dev of
                Inl e \<Rightarrow> Inl e
              | Inr t \<Rightarrow> deserialize_items L dev rest (dict_set deserialize_d (drop 12 k) t)))
      else deserialize_items L dev rest (dict_set deserialize_d k v))"

fun deserialize_dict :: "libs \<Rightarrow> pyobj \<Rightarrow> device option \<Rightarrow> exn + pyobj" where
  "deserialize_dict L (PDict d) dev =
     (case deserialize_items L dev d [] of Inl e \<Rightarrow> Inl e | Inr deserialize_d \<Rightarrow> Inr (PDict deserialize_d))"
| "deserialize_dict L v dev = Inl (no_attribute L v ''items'')"


definition text_roundtrip :: "libs \<Rightarrow> device option \<Rightarrow> pyobj \<Rightarrow> exn + pyobj" where
  "text_roundtrip L dev x =
     (case serialize_dict L x of Inl e \<Rightarrow> Inl e | Inr s \<Rightarrow> deserialize_dict L s dev)"













section \<open>server.py: the inference endpoint\<close>

record http_response =
  resp_body :: bytes
  resp_status :: int
  resp_headers :: "(string \<times> string) list"

text \<open>The two globals of the module.\<close>

record server_state =
  model :: "model_handle option"
  device :: "device option"

definition octet_stream :: "(string \<times> string) list" where
  "octet_stream = [(''Content-Type'', ''application/octet-stream'')]"

definition error_payload :: "string \<Rightarrow> pyobj" where
  "error_payload msg = PDict [(''status'', PStr ''error''), (''message'', PStr msg)]"

text \<open>
  Step 2 of \<open>infer\<close>: the loop over \<open>data.items()\<close> that builds \<open>obs\<close>. An array is
  a shape, an element type and its elements in row-major order, so making it contiguous
  changes nothing here; \<open>torch.from_numpy(v).to(device)\<close> is the library's \<open>to_tensor\<close>.
\<close>

fun prepare_items :: "libs \<Rightarrow> device option \<Rightarrow> pydict \<Rightarrow> pydict \<Rightarrow> exn + pydict" where
  "prepare_items L dev [] obs = Inr obs"
| "prepare_items L dev ((k, v) # rest) obs =
     (case v of
        PArray arr \<Rightarrow>
          (case to_tensor L arr dev of
             Inl e \<Rightarrow> Inl e
           | Inr t \<Rightarrow> prepare_items L dev rest (dict_set obs k t))
      | other \<Rightarrow> prepare_items L dev rest (dict_set obs k v))"

fun prepare_obs :: "libs \<Rightarrow> device option \<Rightarrow> pyobj \<Rightarrow> exn + pyobj" where
  "prepare_obs L dev (PDict d) =
     (case prepare_items L dev d [] of Inl e \<Rightarrow> Inl e | Inr obs \<Rightarrow> Inr (PDict obs))"
| "prepare_obs L dev v = Inl (no_attribute L v ''items'')"

definition ok_payload :: "pyobj \<Rightarrow> pyobj" where
  "ok_payload output = PDict [(''status'', PStr ''ok''), (''output'', output)]"

text \<open>The body of the \<open>try\<close> statement of \<open>infer\<close>, run with the loaded model \<open>m\<close>:
  the response blob, the exception a stage raised, or the escape that left the decoding
  of the request body.\<close>

definition infer_try :: "libs \<Rightarrow> model_handle \<Rightarrow> device option \<Rightarrow> bytes \<Rightarrow> exn + bytes finish" where
  "infer_try L m dev request_data =
     (case binary_to_dict L request_data of
        Inl e \<Rightarrow> Inl e
      | Inr (Escaped x) \<Rightarrow> Inr (Escaped x)
      | Inr (Returned data) \<Rightarrow>
          (case prepare_obs L dev data of
             Inl e \<Rightarrow> Inl e
           | Inr obs \<Rightarrow>
               (case model_inference L m dev obs of
                  Inl e \<Rightarrow> Inl e
                | Inr output \<Rightarrow>
                    (case dict_to_binary L (ok_payload output) of
                       Inl e \<Rightarrow> Inl e
                     | Inr response_blob \<Rightarrow> Inr (Returned response_blob)))))"

text \<open>
  A handler returns \<open>Inr\<close> the response it builds, or \<open>Inl\<close> what leaves the view
  function: an exception raised outside the \<open>try\<close> statement (Flask then logs it and
  answers with its own 500 page; the process goes on), or an escape, which the clause
  \<open>except Exception\<close> does not catch.
\<close>

definition infer :: "libs \<Rightarrow> server_state \<Rightarrow> bytes \<Rightarrow> uncaught + http_response" where
  "infer L st request_data =
     (case model st of
        None \<Rightarrow>
          (case dict_to_binary L (error_payload ''Service not ready'') of
             Inl e \<Rightarrow> Inl (Unhandled e)
           | Inr blob \<Rightarrow> Inr \<lparr>resp_body = blob, resp_status = 503, resp_headers = octet_stream\<rparr>)
      | Some m \<Rightarrow>
          (case infer_try L m (device st) request_data of
             Inr (Returned response_blob) \<Rightarrow>
               Inr \<lparr>resp_body = response_blob, resp_status = 200, resp_headers = octet_stream\<rparr>
           | Inr (Escaped x) \<Rightarrow> Inl (Exit x)
           | Inl e \<Rightarrow>
               (case dict_to_binary L (error_payload (exn_str e)) of
                  Inl e' \<Rightarrow> Inl (Unhandled e')
                | Inr blob \<Rightarrow> Inr \<lparr>resp_body = blob, resp_status = 500, resp_headers = octet_stream\<rparr>)))"

text \<open>The stage of the pipeline that is the first to raise an exception of class
  \<open>Exception\<close>, with that exception.\<close>

datatype stage = Decode | Prepare | Invoke | Encode

definition stage_failure ::
  "libs \<Rightarrow> model_handle \<Rightarrow> device option \<Rightarrow> bytes \<Rightarrow> (stage \<times> exn) option" where
  "stage_failure L m dev request_data =
     (case binary_to_dict L request_data of
        Inl e \<Rightarrow> Some (Decode, e)
      | Inr (Escaped x) \<Rightarrow> None
      | Inr (Returned data) \<Rightarrow>
          (case prepare_obs L dev data of
             Inl e \<Rightarrow> Some (Prepare, e)
           | Inr obs \<Rightarrow>
               (case model_inference L m dev obs of
                  Inl e \<Rightarrow> Some (Invoke, e)
                | Inr output \<Rightarrow>
                    (case dict_to_binary L (ok_payload output) of
                       Inl e \<Rightarrow> Some (Encode, e)
                     | Inr blob \<Rightarrow> None))))"

section \<open>Flask\_Demo1/GPU\_LeRobot\_SmolVLA\_Server.py: the textual server\<close>



definition decode_request_data :: "libs \<Rightarrow> bytes \<Rightarrow> bool \<Rightarrow> device option \<Rightarrow> exn + pyobj" where
  "decode_request_data L raw_data compressed dev =
     (case (if compressed then gzip_decompress L raw_data else Inr raw_data) of
        Inl e \<Rightarrow> Inl e
      | Inr raw \<Rightarrow>
          (case utf8_decode L raw of
             Inl e \<Rightarrow> Inl e
           | Inr text \<Rightarrow>
               (case json_loads L text of
                  Inl e \<Rightarrow> Inl e
                | Inr d \<Rightarrow> deserialize_dict L d dev)))"

definition encode_request_data :: "libs \<Rightarrow> pyobj \<Rightarrow> bool \<Rightarrow> exn + http_response" where
  "encode_request_data L data compressed =
     (case serialize_dict L data of
        Inl e \<Rightarrow> Inl e
      | Inr sd \<Rightarrow>
          (case json_dumps L sd of
             Inl e \<Rightarrow> Inl e
           | Inr text \<Rightarrow>
               Inr \<lparr>resp_body = (if compressed then gzip_compress L text else text),
                    resp_status = 200,
                    resp_headers = [(''Content-Type'', ''application/json''),
                                    (''compressed'', if compressed then ''gzip'' else ''raw'')]\<rparr>))"


text \<open>A request: the value of \<open>request.headers.get('compressed', '')\<close> and the body.\<close>

record text_request =
  compressed_header :: string
  raw_data :: bytes





text \<open>Encoding a payload as a message body and decoding that body, with the gzip
  wrapping on or off on both sides.\<close>

definition text_wire_roundtrip :: "libs \<Rightarrow> bool \<Rightarrow> device option \<Rightarrow> pyobj \<Rightarrow> exn + pyobj" where
  "text_wire_roundtrip L compressed dev x =
     (case encode_request_data L x compressed of
        Inl e \<Rightarrow> Inl e
      | Inr r \<Rightarrow> decode_request_data L (resp_body r) compressed dev)"

section \<open>Paths, as \<open>os.path\<close> computes them on POSIX\<close>

text \<open>\<open>path.split('/')\<close>: the pieces between the separators, one more than there are
  separators.\<close>

fun split_sep :: "string \<Rightarrow> string list" where
  "split_sep [] = [[]]"
| "split_sep (c # cs) =
     (if c = CHR ''/'' then [] # split_sep cs
      else (case split_sep cs of [] \<Rightarrow> [[c]] | x # xs \<Rightarrow> (c # x) # xs))"

fun join_sep :: "string list \<Rightarrow> string" where
  "join_sep [] = []"
| "join_sep [x] = x"
| "join_sep (x # y # ys) = x @ ''/'' @ join_sep (y # ys)"

text \<open>The loop of \<open>normpath\<close> over the components, \<open>new_comps\<close> built so far.\<close>

fun norm_comps :: "nat \<Rightarrow> string list \<Rightarrow> string list \<Rightarrow> string list" where
  "norm_comps initial_slashes [] new_comps = new_comps"
| "norm_comps initial_slashes (part # comps) new_comps =
     (if part = [] \<or> part = ''.'' then norm_comps initial_slashes comps new_comps
      else if part \<noteq> ''..'' \<or> (initial_slashes = 0 \<and> new_comps = [])
                \<or> (new_comps \<noteq> [] \<and> last new_comps = ''..'')
        then norm_comps initial_slashes comps (new_comps @ [part])
      else if new_comps \<noteq> [] then norm_comps initial_slashes comps (butlast new_comps)
      else norm_comps initial_slashes comps new_comps)"

definition normpath :: "string \<Rightarrow> string" where
  "normpath path =
     (if path = [] then ''.''
      else
        (let initial_slashes =
               (if take 1 path = ''/'' then
                  (if take 2 path = ''//'' \<and> take 3 path \<noteq> ''///'' then 2 else 1)
                else (0::nat));
             p = join_sep (norm_comps initial_slashes (split_sep path) []);
             p = replicate initial_slashes (CHR ''/'') @ p
         in if p = [] then ''.'' else p))"

definition isabs :: "string \<Rightarrow> bool" where
  "isabs s = (take 1 s = ''/'')"

definition os_path_join :: "string \<Rightarrow> string \<Rightarrow> string" where
  "os_path_join a b =
     (if take 1 b = ''/'' then b
      else if a = [] \<or> last a = CHR ''/'' then a @ b
      else a @ ''/'' @ b)"

definition abspath :: "string \<Rightarrow> string \<Rightarrow> string" where
  "abspath cwd path = normpath (if isabs path then path else os_path_join cwd path)"

text \<open>
  \<open>os.path.commonprefix\<close> compares character by character: it returns the longest
  common prefix of the least and the greatest string of the list, which is the longest
  string every element starts with.
\<close>

fun lcp :: "string \<Rightarrow> string \<Rightarrow> string" where
  "lcp (c # s1) (d # s2) = (if c = d then c # lcp s1 s2 else [])"
| "lcp s1 s2 = []"

fun commonprefix :: "string list \<Rightarrow> string" where
  "commonprefix [] = []"
| "commonprefix (s # m) = foldl lcp s m"

text \<open>Whether a path is the directory or lies below it, component by component.\<close>

definition is_descendant :: "string \<Rightarrow> string \<Rightarrow> bool" where
  "is_descendant directory p = (p = directory \<or> take (length directory + 1) p = directory @ ''/'')"

section \<open>Operations on the file system\<close>

fun dirs_upto :: "string \<Rightarrow> string list \<Rightarrow> string list" where
  "dirs_upto base [] = []"
| "dirs_upto base (c # cs) = (base @ ''/'' @ c) # dirs_upto (base @ ''/'' @ c) cs"

definition path_comps :: "string \<Rightarrow> string list" where
  "path_comps p = filter (\<lambda>c. c \<noteq> []) (split_sep p)"

text \<open>\<open>os.makedirs(d, exist_ok=True)\<close>: the directory and every ancestor it lacks.\<close>

definition makedirs :: "filesystem \<Rightarrow> string \<Rightarrow> filesystem" where
  "makedirs fs d =
     fold (\<lambda>p fs'. if map_of fs' p = None then fs' @ [(p, Dir)] else fs') (dirs_upto [] (path_comps d)) fs"

definition dirname :: "string \<Rightarrow> string" where
  "dirname p = ''/'' @ join_sep (butlast (path_comps p))"

definition write_file :: "filesystem \<Rightarrow> string \<Rightarrow> bytes \<Rightarrow> filesystem" where
  "write_file fs p data = dict_set (makedirs fs (dirname p)) p (File data)"

definition listdir :: "filesystem \<Rightarrow> string \<Rightarrow> string list" where
  "listdir fs d =
     map (\<lambda>pn. drop (length d + 1) (fst pn))
       (filter (\<lambda>pn. take (length d + 1) (fst pn) = d @ ''/''
                     \<and> CHR ''/'' \<notin> set (drop (length d + 1) (fst pn))) fs)"

definition isdir :: "filesystem \<Rightarrow> string \<Rightarrow> bool" where
  "isdir fs p = (map_of fs p = Some Dir)"

definition os_remove :: "filesystem \<Rightarrow> string \<Rightarrow> exn + filesystem" where
  "os_remove fs p =
     (case map_of fs p of
        Some (File data) \<Rightarrow> Inr (filter (\<lambda>pn. fst pn \<noteq> p) fs)
      | other \<Rightarrow> Inl (OtherException ''not a file''))"

text \<open>Leaving the \<open>with tempfile.TemporaryDirectory()\<close> block removes the directory
  and everything below it.\<close>

definition rmtree :: "filesystem \<Rightarrow> string \<Rightarrow> filesystem" where
  "rmtree fs d = filter (\<lambda>pn. \<not> is_descendant d (fst pn)) fs"

text \<open>\<open>tar.extractall(path)\<close> without an extraction filter: every member is written at
  \<open>os.path.join(path, member.name)\<close>, where the operating system resolves the \<open>..\<close>
  of that path.\<close>

definition extract_member :: "string \<Rightarrow> tar_member \<Rightarrow> filesystem \<Rightarrow> filesystem" where
  "extract_member path member fs =
     (let target = normpath (os_path_join path (member_name member))
      in if member_isdir member then makedirs fs target
         else write_file fs target (member_data member))"

definition extractall :: "filesystem \<Rightarrow> string \<Rightarrow> tar_member list \<Rightarrow> filesystem" where
  "extractall fs path members = fold (extract_member path) members fs"

section \<open>server.py: the model hot-swap\<close>

definition is_within_directory :: "string \<Rightarrow> string \<Rightarrow> string \<Rightarrow> bool" where
  "is_within_directory cwd directory target =
     (let abs_directory = abspath cwd directory;
          abs_target = abspath cwd target;
          prefix = commonprefix [abs_directory, abs_target]
      in prefix = abs_directory)"

definition safe_extract :: "string \<Rightarrow> filesystem \<Rightarrow> string \<Rightarrow> tar_member list \<Rightarrow> exn + filesystem" where
  "safe_extract cwd fs path members =
     (if list_all (\<lambda>member. is_within_directory cwd path (os_path_join path (member_name member))) members
      then Inr (extractall fs path members)
      else Inl (OtherException ''Attempted Path Traversal in Tar File''))"

text \<open>
  \<open>s.strip()\<close> removes the white space at both ends. These are the characters Python
  counts as white space (\<open>str.isspace\<close>), each as its UTF-8 bytes: U+0009 to U+000D,
  U+001C to U+0020, U+0085, U+00A0, U+1680, U+2000 to U+200A, U+2028, U+2029, U+202F,
  U+205F and U+3000.
\<close>

definition whitespace :: "string list" where
  "whitespace =
     map (\<lambda>c. [c]) [CHR 0x09, CHR 0x0A, CHR 0x0B, CHR 0x0C, CHR 0x0D,
                     CHR 0x1C, CHR 0x1D, CHR 0x1E, CHR 0x1F, CHR 0x20]
     @ [[CHR 0xC2, CHR 0x85], [CHR 0xC2, CHR 0xA0], [CHR 0xE1, CHR 0x9A, CHR 0x80]]
     @ map (\<lambda>c. [CHR 0xE2, CHR 0x80, c])
         [CHR 0x80, CHR 0x81, CHR 0x82, CHR 0x83, CHR 0x84, CHR 0x85, CHR 0x86, CHR 0x87,
          CHR 0x88, CHR 0x89, CHR 0x8A, CHR 0xA8, CHR 0xA9, CHR 0xAF]
     @ [[CHR 0xE2, CHR 0x81, CHR 0x9F], [CHR 0xE3, CHR 0x80, CHR 0x80]]"

text \<open>Removing, as long as there is one, a leading piece that is in the list.\<close>

function strip_prefixes :: "string list \<Rightarrow> string \<Rightarrow> string" where
  "strip_prefixes ws s =
     (case find (\<lambda>w. w \<noteq> [] \<and> take (length w) s = w) ws of
        None \<Rightarrow> s
      | Some w \<Rightarrow> strip_prefixes ws (drop (length w) s))"
  by pat_completeness auto
termination
proof (relation "measure (\<lambda>(ws, s). length s)")
  show "wf (measure (\<lambda>(ws, s). length s))" by simp
next
  fix ws :: "string list" and s w :: string
  assume "find (\<lambda>w. w \<noteq> [] \<and> take (length w) s = w) ws = Some w"
  then have "w \<noteq> []" and "take (length w) s = w"
    by (auto simp: find_Some_iff)
  then have "0 < length w" and "length w \<le> length s"
    by (auto simp: min_def dest: arg_cong[where f = length] split: if_splits)
  then have "length s - length w < length s"
    by arith
  then show "((ws, drop (length w) s), (ws, s)) \<in> measure (\<lambda>(ws, s). length s)"
    by simp
qed

declare strip_prefixes.simps [simp del]

definition py_strip :: "string \<Rightarrow> string" where
  "py_strip s = rev (strip_prefixes (map rev whitespace) (rev (strip_prefixes whitespace s)))"

definition endswith :: "string \<Rightarrow> string \<Rightarrow> bool" where
  "endswith s suffix = (length suffix \<le> length s \<and> drop (length s - length suffix) s = suffix)"

record upload =
  filename :: string
  file_bytes :: bytes

text \<open>A request to \<open>/update_model\<close>: the value of \<open>request.form.get('device', '')\<close> and
  the entry \<open>'file'\<close> of \<open>request.files\<close>, if there is one.\<close>

record update_request =
  form_device :: string
  form_file :: "upload option"

text \<open>What the host gives the handler: the working directory and the fresh directory
  \<open>tempfile.TemporaryDirectory()\<close> creates (an absolute path).\<close>

record host =
  cwd :: string
  new_temp_dir :: string

text \<open>The first statements of \<open>update_model\<close>: the global \<open>device\<close> is assigned
  when the stripped form field is not empty; \<open>torch.device\<close> may raise.\<close>

definition assign_device :: "libs \<Rightarrow> server_state \<Rightarrow> update_request \<Rightarrow> exn + server_state" where
  "assign_device L st req =
     (let device_str = py_strip (form_device req) in
      if device_str \<noteq> [] then
        (case torch_device L device_str of
           Inl e \<Rightarrow> Inl e
         | Inr d \<Rightarrow> Inr (st\<lparr>device := Some d\<rparr>))
      else Inr st)"

text \<open>The body of the \<open>with\<close> block up to the choice of the model directory, with
  the file system as it is at that point (the temporary directory still there).\<close>

definition extract_archive ::
  "libs \<Rightarrow> host \<Rightarrow> filesystem \<Rightarrow> upload \<Rightarrow> (exn + string) \<times> filesystem" where
  "extract_archive L h fs file =
     (let temp_dir = new_temp_dir h;
          fs1 = dict_set fs temp_dir Dir;
          tar_path = os_path_join temp_dir ''uploaded.tar'';
          fs2 = dict_set fs1 tar_path (File (file_bytes file))
      in case tarfile_open L (file_bytes file) of
           Inl e \<Rightarrow> (Inl e, fs2)
         | Inr members \<Rightarrow>
             (case safe_extract (cwd h) fs2 temp_dir members of
                Inl e \<Rightarrow> (Inl e, fs2)
              | Inr fs3 \<Rightarrow>
                  (case os_remove fs3 tar_path of
                     Inl e \<Rightarrow> (Inl e, fs3)
                   | Inr fs4 \<Rightarrow>
                       (let extracted_items = listdir fs4 temp_dir;
                            model_dir =
                              (if length extracted_items = 1
                                  \<and> isdir fs4 (os_path_join temp_dir (extracted_items ! 0))
                               then os_path_join temp_dir (extracted_items ! 0)
                               else temp_dir)
                        in (Inr model_dir, fs4)))))"

text \<open>The whole \<open>with\<close> block: the new model or the exception raised, and the file
  system after the temporary directory has been removed.\<close>

definition extract_and_load ::
  "libs \<Rightarrow> host \<Rightarrow> device option \<Rightarrow> filesystem \<Rightarrow> upload \<Rightarrow> (exn + model_handle) \<times> filesystem" where
  "extract_and_load L h dev fs file =
     (case extract_archive L h fs file of
        (Inl e, fs') \<Rightarrow> (Inl e, rmtree fs' (new_temp_dir h))
      | (Inr model_dir, fs') \<Rightarrow> (load_model L model_dir dev fs', rmtree fs' (new_temp_dir h)))"

definition update_model ::
  "libs \<Rightarrow> host \<Rightarrow> server_state \<Rightarrow> filesystem \<Rightarrow> update_request
     \<Rightarrow> (exn + (pydict \<times> int)) \<times> server_state \<times> filesystem" where
  "update_model L h st fs req =
     (case assign_device L st req of
        Inl e \<Rightarrow> (Inl e, st, fs)
      | Inr st1 \<Rightarrow>
          (case form_file req of
             None \<Rightarrow> (Inr ([(''error'', PStr ''No file part'')], 400), st1, fs)
           | Some file \<Rightarrow>
               if filename file = [] then
                 (Inr ([(''error'', PStr ''No selected file'')], 400), st1, fs)
               else if \<not> endswith (filename file) ''.tar'' then
                 (Inr ([(''error'', PStr ''Only .tar (uncompressed archive) is allowed'')], 400), st1, fs)
               else
                 (case extract_and_load L h (device st1) fs file of
                    (Inr new_model, fs') \<Rightarrow>
                      (Inr ([(''message'', PStr ''Model updated successfully'')], 200),
                       st1\<lparr>model := Some new_model\<rparr>, fs')
                  | (Inl e, fs') \<Rightarrow>
                      (Inr ([(''error'', PStr (exn_str e))], 500), st1, fs'))))"


section \<open>What \<open>pickle.loads\<close> does with its input\<close>

text \<open>
  \<open>binary_to_dict\<close> hands the bytes it receives to \<open>pickle.loads\<close> as they are, with
  the library's own \<open>Unpickler\<close> (no \<open>find_class\<close> of the repository restricts what a
  stream may name). A pickle is a program for a stack machine; the fragment below has
  the six opcodes of the library's protocol 0 that name a global, build its arguments
  and call it, as the library documents them (\<open>pickletools\<close>):
  \<^item> \<open>c\<close> (GLOBAL) reads two lines, a module and a name, and pushes that global;
  \<^item> \<open>(\<close> (MARK) pushes a mark;
  \<^item> \<open>S\<close> (STRING) reads a line holding a quoted string and pushes the string;
  \<^item> \<open>t\<close> (TUPLE) replaces everything above the topmost mark by one tuple;
  \<^item> \<open>R\<close> (REDUCE) pops a tuple of arguments and a callable, calls it, pushes the result;
  \<^item> \<open>.\<close> (STOP) ends the load with the top of the stack.
  The machine records the calls REDUCE makes. On any other opcode, and on a string with
  an escape, the fragment stops as \<open>Unmodelled\<close>: it says nothing about such streams.
  It takes every global a stream names to exist, and it does not say what the library
  does when a stream ends before STOP.
\<close>

datatype pval = PvMark | PvStr string | PvGlobal string string | PvTuple "pval list" | PvResult nat

datatype call = Call string string "pval list"

datatype vm_mode =
    AtOpcode
  | InModule string
  | InName string string
  | InString string
  | Stopped pval
  | Failed string
  | Unmodelled

record vm =
  vm_mode :: vm_mode
  vm_stack :: "pval list"
  vm_calls :: "call list"

definition newline :: char where
  "newline = CHR 0x0A"

definition backslash :: char where
  "backslash = CHR 0x5C"

text \<open>The stack is kept with its top first.\<close>

definition pop_mark :: "pval list \<Rightarrow> (pval list \<times> pval list) option" where
  "pop_mark stack =
     (if PvMark \<in> set stack
      then Some (rev (takeWhile (\<lambda>v. v \<noteq> PvMark) stack), tl (dropWhile (\<lambda>v. v \<noteq> PvMark) stack))
      else None)"

definition unquote :: "string \<Rightarrow> string option" where
  "unquote s =
     (if 2 \<le> length s \<and> hd s = quote \<and> last s = quote then Some (butlast (tl s)) else None)"

definition vm_opcode :: "char \<Rightarrow> vm \<Rightarrow> vm" where
  "vm_opcode c m =
     (if c = CHR ''c'' then m\<lparr>vm_mode := InModule []\<rparr>
      else if c = CHR ''('' then m\<lparr>vm_stack := PvMark # vm_stack m\<rparr>
      else if c = CHR ''S'' then m\<lparr>vm_mode := InString []\<rparr>
      else if c = CHR ''t'' then
        (case pop_mark (vm_stack m) of
           None \<Rightarrow> m\<lparr>vm_mode := Failed ''could not find MARK''\<rparr>
         | Some (items, rest) \<Rightarrow> m\<lparr>vm_stack := PvTuple items # rest\<rparr>)
      else if c = CHR ''R'' then
        (case vm_stack m of
           PvTuple args # PvGlobal module name # rest \<Rightarrow>
             m\<lparr>vm_stack := PvResult (length (vm_calls m)) # rest,
               vm_calls := vm_calls m @ [Call module name args]\<rparr>
         | other \<Rightarrow> m\<lparr>vm_mode := Failed ''REDUCE needs a callable and a tuple''\<rparr>)
      else if c = CHR ''.'' then
        (case vm_stack m of
           v # rest \<Rightarrow> m\<lparr>vm_mode := Stopped v, vm_stack := rest\<rparr>
         | [] \<Rightarrow> m\<lparr>vm_mode := Failed ''pop from empty list''\<rparr>)
      else m\<lparr>vm_mode := Unmodelled\<rparr>)"

definition vm_step :: "char \<Rightarrow> vm \<Rightarrow> vm" where
  "vm_step c m =
     (case vm_mode m of
        AtOpcode \<Rightarrow> vm_opcode c m
      | InModule acc \<Rightarrow>
          (if c = newline then m\<lparr>vm_mode := InName acc []\<rparr> else m\<lparr>vm_mode := InModule (acc @ [c])\<rparr>)
      | InName module acc \<Rightarrow>
          (if c = newline then m\<lparr>vm_mode := AtOpcode, vm_stack := PvGlobal module acc # vm_stack m\<rparr>
           else m\<lparr>vm_mode := InName module (acc @ [c])\<rparr>)
      | InString acc \<Rightarrow>
          (if c = newline then
             (if backslash \<in> set acc then m\<lparr>vm_mode := Unmodelled\<rparr>
              else (case unquote acc of
                      None \<Rightarrow> m\<lparr>vm_mode := Failed ''the STRING opcode argument must be quoted''\<rparr>
                    | Some s \<Rightarrow> m\<lparr>vm_mode := AtOpcode, vm_stack := PvStr s # vm_stack m\<rparr>))
           else m\<lparr>vm_mode := InString (acc @ [c])\<rparr>)
      | other \<Rightarrow> m)"

definition pickle_machine :: "bytes \<Rightarrow> vm" where
  "pickle_machine data = fold vm_step data \<lparr>vm_mode = AtOpcode, vm_stack = [], vm_calls = []\<rparr>"

text \<open>The calls made while \<open>binary_to_dict(data)\<close> runs: those of
  \<open>pickle.loads(data, fix_imports=False)\<close>.\<close>

definition binary_to_dict_calls :: "bytes \<Rightarrow> call list" where
  "binary_to_dict_calls data = vm_calls (pickle_machine data)"

text \<open>The stream \<open>cos\nsystem\n(S'id'\ntR.\<close>, 21 bytes.\<close>

definition os_system_pickle :: bytes where
  "os_system_pickle =
     ''cos'' @ [newline] @ ''system'' @ [newline] @ ''(S'' @ [quote] @ ''id'' @ [quote] @ [newline] @ ''tR.''"

section \<open>A small instance of the libraries, to evaluate the operations\<close>

text \<open>
  The theorems below hold for every library. To run the operations on concrete inputs
  the library functions are instantiated by a codebook: a few objects with a fixed
  encoding each, and prefix-tagged wrappers for base64 and gzip. Its \<open>time.sleep\<close> knows
  whole numbers of seconds only.
\<close>


definition demo_array :: ndarray where
  "demo_array = \<lparr>arr_dtype = UInt8, arr_shape = [2], arr_data = ''ab''\<rparr>"

definition demo_action :: ndarray where
  "demo_action = \<lparr>arr_dtype = Float32, arr_shape = [1], arr_data = ''wxyz''\<rparr>"

definition demo_err :: pyobj where
  "demo_err = PDict [(''status'', PStr ''error''), (''message'', PStr ''Service not ready'')]"

definition demo_payload :: pyobj where
  "demo_payload = PDict [(''instruction'', PStr ''pick up cup''), (''gain'', PInt 3),
     (''state'', PArray \<lparr>arr_dtype = UInt8, arr_shape = [2], arr_data = ''ab''\<rparr>)]"

definition demo_pickles :: "(pyobj \<times> bytes) list" where
  "demo_pickles = [(demo_payload, ''p0''), (demo_err, ''p1''),
     (error_payload ''UnpicklingError'', ''p2''),
     (error_payload ''KeyError: state'', ''p3''),
     (ok_payload (PArray demo_action), ''p4''),
     (PDict [(''instruction'', PStr ''pick up cup'')], ''p5'')]"

definition demo_arrays :: "(ndarray \<times> bytes) list" where
  "demo_arrays = [(demo_array, ''npy0''), (demo_action, ''npy1'')]"

definition demo_jsons :: "(pyobj \<times> string) list" where
  "demo_jsons =
     [(PDict [(''instruction'', PStr ''pick up cup''), (''gain'', PInt 3),
              (''base64numpy_state'', PStr ''b64:npy0'')], ''j0''),
      (PDict [(''message'', PStr ''error'')], ''j1''),
      (PDict [(''base64numpy_action_chunk'', PStr ''b64:npy1''), (''message'', PStr ''success'')], ''j2'')]"

definition demo_tars :: "(bytes \<times> tar_member list) list" where
  "demo_tars =
     [(''tar0'', [\<lparr>member_name = ''policy'', member_isdir = True, member_data = []\<rparr>,
                 \<lparr>member_name = ''policy/config.json'', member_isdir = False, member_data = ''{}''\<rparr>]),
      (''tar1'', [\<lparr>member_name = ''../evil'', member_isdir = False, member_data = ''x''\<rparr>]),
      (''tar2'', [\<lparr>member_name = ''/etc/evil'', member_isdir = False, member_data = ''x''\<rparr>]),
      (''tar3'', [\<lparr>member_name = ''config.json'', member_isdir = False, member_data = ''{}''\<rparr>,
                 \<lparr>member_name = ''../tmpabc/evil'', member_isdir = False, member_data = ''x''\<rparr>]),
      (''tar4'', [\<lparr>member_name = ''policy/readme.txt'', member_isdir = False, member_data = ''hi''\<rparr>])]"

text \<open>The stream \<open>csys\nexit\n(tR.\<close>: it names \<open>sys.exit\<close> and calls it with no
  argument, which raises \<open>SystemExit\<close>.\<close>

definition sys_exit_pickle :: bytes where
  "sys_exit_pickle = ''csys'' @ [newline] @ ''exit'' @ [newline] @ ''(tR.''"

text \<open>The stand-in loader wants a \<open>config.json\<close> in the model directory; the stand-in
  model wants a \<open>state\<close> in its observation.\<close>

definition demo_libs :: libs where
  "demo_libs = \<lparr>
     pickle_dumps = (\<lambda>v. case map_of demo_pickles v of Some b \<Rightarrow> Inr b | None \<Rightarrow> Inl (OtherException ''PicklingError'')),
     pickle_loads = (\<lambda>b. if b = sys_exit_pickle then Inr (Escaped (BaseExc ''SystemExit''))
                         else case map_of (map prod.swap demo_pickles) b of
                                Some v \<Rightarrow> Inr (Returned v)
                              | None \<Rightarrow> Inl (OtherException ''UnpicklingError'')),
     py_repr = (\<lambda>v. ''<object>''),
     object_type_name = (\<lambda>n. ''function''),
     time_sleep = (\<lambda>d. case d of
                      PInt i \<Rightarrow> (if i < 0 then Some (ValueError ''sleep length must be non-negative'') else None)
                    | other \<Rightarrow> Some (OtherException ''TypeError'')),
     np_save = (\<lambda>a. case map_of demo_arrays a of Some b \<Rightarrow> Inr b | None \<Rightarrow> Inl (ValueError ''cannot save'')),
     np_load = (\<lambda>b. case map_of (map prod.swap demo_arrays) b of Some a \<Rightarrow> Inr a | None \<Rightarrow> Inl (ValueError ''cannot load'')),
     b64encode = (\<lambda>b. ''b64:'' @ b),
     b64decode = (\<lambda>s. if take 4 s = ''b64:'' then Inr (drop 4 s) else Inl (ValueError ''Incorrect padding'')),
     json_dumps = (\<lambda>v. case map_of demo_jsons v of Some s \<Rightarrow> Inr s | None \<Rightarrow> Inl (OtherException ''TypeError'')),
     json_loads = (\<lambda>s. case map_of (map prod.swap demo_jsons) s of Some v \<Rightarrow> Inr v | None \<Rightarrow> Inl (ValueError ''JSONDecodeError'')),
     utf8_decode = (\<lambda>b. Inr b),
     gzip_compress = (\<lambda>b. ''gz:'' @ b),
     gzip_decompress = (\<lambda>b. if take 3 b = ''gz:'' then Inr (drop 3 b) else Inl (OtherException ''BadGzipFile'')),
     torch_device = (\<lambda>s. if s \<in> set [''cpu'', ''cuda:0'', ''cuda:1''] then Inr s else Inl (RuntimeError ''Invalid device string'')),
     to_tensor = (\<lambda>a d. Inr (PTensor a d)),
     tarfile_open = (\<lambda>b. case map_of demo_tars b of Some ms \<Rightarrow> Inr ms | None \<Rightarrow> Inl (OtherException ''ReadError'')),
     load_model = (\<lambda>path d fs. case map_of fs (os_path_join path ''config.json'') of
                      Some (File c) \<Rightarrow> Inr (ModelHandle (length c))
                    | other \<Rightarrow> Inl (OtherException ''config.json not found'')),
     model_inference = (\<lambda>m d obs. case obs of
                      PDict items \<Rightarrow> (if map_of items ''state'' = None then Inl (OtherException ''KeyError: state'')
                                       else Inr (PArray demo_action))
                    | other \<Rightarrow> Inl (OtherException ''TypeError'')),
     predict_action_chunk = (\<lambda>m obs. case obs of
                      PDict items \<Rightarrow> (if map_of items ''state'' = None then Inl (OtherException ''KeyError: state'')
                                       else Inr demo_action)
                    | other \<Rightarrow> Inl (OtherException ''TypeError'')) \<rparr>"

definition demo_post :: "int \<Rightarrow> outcome" where
  "demo_post attempt =
     (if attempt = 0 then Raise (Timeout ''timed out'')
      else if attempt = 1 then Resp \<lparr>status_code = 503, content = ''p1'', resp_text = ''?''\<rparr>
      else Resp \<lparr>status_code = 200, content = ''junk'', resp_text = ''junk''\<rparr>)"

definition demo_host :: host where
  "demo_host = \<lparr>cwd = ''/srv'', new_temp_dir = ''/tmp/tmpab''\<rparr>"

definition demo_state :: server_state where
  "demo_state = \<lparr>model = Some (ModelHandle 0), device = Some ''cpu''\<rparr>"

definition demo_fs :: filesystem where
  "demo_fs = [(''/tmp'', Dir), (''/srv'', Dir), (''/srv/notes.txt'', File ''keep'')]"

section \<open>Properties of the transport client\<close>

lemmas demo_defs = demo_libs_def demo_pickles_def demo_payload_def demo_err_def demo_arrays_def
  demo_jsons_def demo_tars_def demo_array_def demo_action_def error_payload_def ok_payload_def











text \<open>An answer 200 whose body names \<open>sys.exit\<close> is not a failure the client handles:
  \<open>SystemExit\<close> passes every \<open>except\<close> clause and leaves the function after one
  POST.\<close>

lemma system_exit_body_leaves_client:
  "\<not> attempt_fails demo_libs (Resp \<lparr>status_code = 200, content = sys_exit_pickle, resp_text = []\<rparr>)
   \<and> send_inference_request demo_libs
        (\<lambda>attempt. Resp \<lparr>status_code = 200, content = sys_exit_pickle, resp_text = []\<rparr>)
        demo_payload 2 (PInt 1) =
     (Inr (Escaped (BaseExc ''SystemExit'')), [EvPost ''p0''])"
  by code_simp

text \<open>
  Claim C7. When serializing the payload raises, \<open>send_inference_request\<close> raises the
  \<open>RuntimeError\<close> for the encoding failure at once: its trace of effects is empty, so
  there is no POST, no retry and no sleep.
\<close>

theorem encoding_failure_no_attempt:
  assumes "dict_to_binary L data_dict = Inl e"
  shows "send_inference_request L post data_dict max_retries retry_delay =
           (Inl (RuntimeError (''Failed to serialize request data: '' @ exn_str e)), [])"
  using assms by (simp add: send_inference_request_def)

theorem encoding_failure_no_attempt_witness:
  "send_inference_request demo_libs demo_post (PDict [(''callback'', PObject 0)]) 3 (PInt 1) =
     (Inl (RuntimeError ''Failed to serialize request data: PicklingError''), [])"
proof -
  have h: "dict_to_binary demo_libs (PDict [(''callback'', PObject 0)]) = Inl (OtherException ''PicklingError'')"
    by (simp add: dict_to_binary_def demo_defs)
  from encoding_failure_no_attempt[OF h] show ?thesis by simp
qed

section \<open>Properties of the textual codec\<close>




















text \<open>A buffer under a key that starts with a marker does come back.\<close>

lemma marked_buffer_key_roundtrips:
  "text_roundtrip demo_libs (Some ''cpu'') (PDict [(''base64numpy_state'', PArray demo_array)])
     = Inr (PDict [(''base64numpy_state'', PArray demo_array)])"
  by (simp add: text_roundtrip_def serialize_np_def demo_defs)

section \<open>Properties of the inference endpoints\<close>



lemma infer_try_stage_failure:
  "infer_try L m dev data = Inl e \<Longrightarrow> \<exists>s. stage_failure L m dev data = Some (s, e)"
  by (auto simp: stage_failure_def infer_try_def split: sum.splits finish.splits)

text \<open>A request body whose decoding ends in an escape is not a failure the handler
  sees: the escape passes the clause \<open>except Exception\<close> and leaves \<open>infer\<close>.\<close>

lemma decode_escape_leaves_handler:
  "model st = Some m \<Longrightarrow> binary_to_dict L request_data = Inr (Escaped x) \<Longrightarrow>
     infer L st request_data = Inl (Exit x)"
  by (simp add: infer_def infer_try_def)

lemma decode_escape_example:
  "infer demo_libs \<lparr>model = Some (ModelHandle 0), device = Some ''cpu''\<rparr> sys_exit_pickle =
     Inl (Exit (BaseExc ''SystemExit''))"
  by (simp add: infer_def infer_try_def binary_to_dict_def demo_libs_def)





text \<open>
  Claim C5. With no model loaded, \<open>infer\<close> answers with the encoded payload
  \<open>{"status": "error", "message": "Service not ready"}\<close> and status 503. The answer is
  the same for every request body and every behaviour of \<open>pickle.loads\<close>: the body is
  not decoded.
\<close>

theorem not_ready_response:
  assumes "model st = None"
    and "dict_to_binary L (error_payload ''Service not ready'') = Inr blob"
  shows "infer L st request_data =
           Inr \<lparr>resp_body = blob, resp_status = 503, resp_headers = octet_stream\<rparr>
       \<and> infer (L\<lparr>pickle_loads := loads'\<rparr>) st request_data' = infer L st request_data"
  using assms by (simp add: infer_def dict_to_binary_def)

theorem not_ready_response_witness:
  "infer demo_libs \<lparr>model = None, device = Some ''cpu''\<rparr> ''p0'' =
     Inr \<lparr>resp_body = ''p1'', resp_status = 503, resp_headers = octet_stream\<rparr>
   \<and> infer (demo_libs\<lparr>pickle_loads := (\<lambda>b. Inr (Returned PNone))\<rparr>) \<lparr>model = None, device = Some ''cpu''\<rparr> ''junk''
       = infer demo_libs \<lparr>model = None, device = Some ''cpu''\<rparr> ''p0''"
proof -
  have h1: "model \<lparr>model = None, device = Some ''cpu''\<rparr> = None" by simp
  have h2: "dict_to_binary demo_libs (error_payload ''Service not ready'') = Inr ''p1''"
    by (simp add: dict_to_binary_def demo_defs)
  from not_ready_response[OF h1 h2, of "''p0''" "\<lambda>b. Inr (Returned PNone)" "''junk''"] show ?thesis by simp
qed

lemma no_attribute_gzip:
  "no_attribute (L\<lparr>gzip_decompress := g\<rparr>) v name = no_attribute L v name"
  by (cases v) (simp_all add: no_attribute_def)

lemma deserialize_np_gzip:
  "deserialize_np (L\<lparr>gzip_decompress := g\<rparr>) v = deserialize_np L v"
  by (cases v) (simp_all add: no_attribute_gzip split: sum.splits)

lemma deserialize_items_gzip:
  "deserialize_items (L\<lparr>gzip_decompress := g\<rparr>) dev d acc = deserialize_items L dev d acc"
  by (induction d arbitrary: acc) (auto simp: deserialize_np_gzip split: sum.splits)

lemma deserialize_dict_gzip:
  "deserialize_dict (L\<lparr>gzip_decompress := g\<rparr>) v dev = deserialize_dict L v dev"
  by (cases v) (simp_all add: deserialize_items_gzip no_attribute_gzip)

text \<open>
  Claim C8. Where \<open>gzip.decompress\<close> undoes \<open>gzip.compress\<close>, encoding a payload with
  the gzip wrapping and decoding it with the wrapping gives what encoding and decoding
  without it give (the same payload, or the same error). The wrapping is chosen by the
  flag alone: the response says \<open>gzip\<close> or \<open>raw\<close> in its \<open>compressed\<close> header as the
  flag says, and with the flag off the decoder answers the same whatever
  \<open>gzip.decompress\<close> would do, so it never looks whether the body is gzip data.
\<close>

theorem gzip_transparent:
  assumes "\<forall>b. gzip_decompress L (gzip_compress L b) = Inr b"
  shows "text_wire_roundtrip L True dev x = text_wire_roundtrip L False dev x
       \<and> (\<forall>r c. encode_request_data L x c = Inr r
             \<longrightarrow> map_of (resp_headers r) ''compressed'' = Some (if c then ''gzip'' else ''raw''))
       \<and> decode_request_data (L\<lparr>gzip_decompress := g\<rparr>) raw False dev = decode_request_data L raw False dev"
proof (intro conjI allI impI)
  show "text_wire_roundtrip L True dev x = text_wire_roundtrip L False dev x"
    using assms
    by (simp add: text_wire_roundtrip_def encode_request_data_def decode_request_data_def
        split: sum.splits)
next
  fix r c
  assume "encode_request_data L x c = Inr r"
  then show "map_of (resp_headers r) ''compressed'' = Some (if c then ''gzip'' else ''raw'')"
    by (auto simp: encode_request_data_def split: sum.splits)
next
  show "decode_request_data (L\<lparr>gzip_decompress := g\<rparr>) raw False dev = decode_request_data L raw False dev"
    by (simp add: decode_request_data_def deserialize_dict_gzip split: sum.splits)
qed

theorem gzip_transparent_witness:
  "text_wire_roundtrip demo_libs True (Some ''cpu'') demo_payload = Inr demo_payload
   \<and> text_wire_roundtrip demo_libs False (Some ''cpu'') demo_payload = Inr demo_payload
   \<and> map_of [(''Content-Type'', ''application/json''), (''compressed'', ''gzip'')] ''compressed'' = Some ''gzip''"
proof -
  have h: "\<forall>b. gzip_decompress demo_libs (gzip_compress demo_libs b) = Inr b"
    by (simp add: demo_libs_def)
  have f: "text_wire_roundtrip demo_libs False (Some ''cpu'') demo_payload = Inr demo_payload"
    by (simp add: text_wire_roundtrip_def encode_request_data_def decode_request_data_def
        serialize_np_def demo_defs)
  have e: "encode_request_data demo_libs demo_payload True =
      Inr \<lparr>resp_body = ''gz:j0'', resp_status = 200,
           resp_headers = [(''Content-Type'', ''application/json''), (''compressed'', ''gzip'')]\<rparr>"
    by (simp add: encode_request_data_def serialize_np_def demo_defs)
  from gzip_transparent[OF h, of "Some ''cpu''" demo_payload] f e show ?thesis
    by auto
qed

section \<open>Properties of the model hot-swap\<close>

lemma assign_device_only_device:
  "assign_device L st req = Inr st1 \<Longrightarrow> st1 = st\<lparr>device := device st1\<rparr>"
  by (auto simp: assign_device_def Let_def split: if_splits sum.splits)

lemma rejected_member_aborts:
  assumes "assign_device L st req = Inr st1"
    and "form_file req = Some file" and "filename file \<noteq> []" and "endswith (filename file) ''.tar''"
    and "tarfile_open L (file_bytes file) = Inr members"
    and "\<not> list_all (\<lambda>member. is_within_directory (cwd h) (new_temp_dir h)
                  (os_path_join (new_temp_dir h) (member_name member))) members"
  shows "update_model L h st fs req =
           (Inr ([(''error'', PStr ''Attempted Path Traversal in Tar File'')], 500), st1,
            rmtree (dict_set (dict_set fs (new_temp_dir h) Dir)
                      (os_path_join (new_temp_dir h) ''uploaded.tar'') (File (file_bytes file)))
              (new_temp_dir h))"
  using assms
  by (simp add: update_model_def extract_and_load_def extract_archive_def safe_extract_def Let_def)

lemma traversal_examples_rejected:
  "update_model demo_libs demo_host demo_state demo_fs
        \<lparr>form_device = [], form_file = Some \<lparr>filename = ''m.tar'', file_bytes = ''tar1''\<rparr>\<rparr> =
     (Inr ([(''error'', PStr ''Attempted Path Traversal in Tar File'')], 500), demo_state, demo_fs)
   \<and> update_model demo_libs demo_host demo_state demo_fs
        \<lparr>form_device = [], form_file = Some \<lparr>filename = ''m.tar'', file_bytes = ''tar2''\<rparr>\<rparr> =
     (Inr ([(''error'', PStr ''Attempted Path Traversal in Tar File'')], 500), demo_state, demo_fs)"
  by code_simp

text \<open>
  Claim C2 at its failing input. The scratch directory is \<open>/tmp/tmpab\<close>; the archive
  holds \<open>config.json\<close> and a member named \<open>../tmpabc/evil\<close>, which resolves to
  \<open>/tmp/tmpabc/evil\<close>, outside the scratch directory. \<open>is_within_directory\<close> accepts
  it, because \<open>/tmp/tmpab\<close> is a prefix of \<open>/tmp/tmpabc/evil\<close> character by
  character; the hot-swap answers 200, the file is written outside the scratch
  directory and stays there, and the serving model is replaced.
\<close>

theorem sibling_prefix_escapes:
  "\<not> is_descendant ''/tmp/tmpab'' (normpath (os_path_join ''/tmp/tmpab'' ''../tmpabc/evil''))
   \<and> is_within_directory ''/srv'' ''/tmp/tmpab'' (os_path_join ''/tmp/tmpab'' ''../tmpabc/evil'')
   \<and> update_model demo_libs demo_host demo_state demo_fs
        \<lparr>form_device = [], form_file = Some \<lparr>filename = ''m.tar'', file_bytes = ''tar3''\<rparr>\<rparr> =
     (Inr ([(''message'', PStr ''Model updated successfully'')], 200),
      \<lparr>model = Some (ModelHandle 2), device = Some ''cpu''\<rparr>,
      [(''/tmp'', Dir), (''/srv'', Dir), (''/srv/notes.txt'', File ''keep''),
       (''/tmp/tmpabc'', Dir), (''/tmp/tmpabc/evil'', File ''x'')])"
  by code_simp

text \<open>
  Claim C6. When the upload passes the checks, the archive is extracted and the model
  directory chosen, and \<open>load_model\<close> then raises, \<open>update_model\<close> answers with the
  error text and status 500, removes the temporary directory, and leaves the global
  \<open>model\<close> as it was: the state after the request differs from the one before at most in
  \<open>device\<close>, so \<open>infer\<close> goes on with the old model.
\<close>

theorem load_failure_keeps_model:
  assumes "assign_device L st req = Inr st1"
    and "form_file req = Some file" and "filename file \<noteq> []" and "endswith (filename file) ''.tar''"
    and "extract_archive L h fs file = (Inr model_dir, fs4)"
    and "load_model L model_dir (device st1) fs4 = Inl e"
  shows "update_model L h st fs req =
           (Inr ([(''error'', PStr (exn_str e))], 500), st1, rmtree fs4 (new_temp_dir h))
       \<and> model st1 = model st
       \<and> infer L st1 request_data = infer L (st\<lparr>device := device st1\<rparr>) request_data"
proof -
  have u: "update_model L h st fs req =
           (Inr ([(''error'', PStr (exn_str e))], 500), st1, rmtree fs4 (new_temp_dir h))"
    using assms by (simp add: update_model_def extract_and_load_def)
  have s: "st1 = st\<lparr>device := device st1\<rparr>"
    using assms(1) by (rule assign_device_only_device)
  have m: "model st1 = model st"
    by (subst s) simp
  have i: "infer L st1 request_data = infer L (st\<lparr>device := device st1\<rparr>) request_data"
    using s by simp
  from u m i show ?thesis by simp
qed

theorem load_failure_keeps_model_witness:
  "update_model demo_libs demo_host demo_state demo_fs
        \<lparr>form_device = ''cuda:1'', form_file = Some \<lparr>filename = ''m.tar'', file_bytes = ''tar4''\<rparr>\<rparr> =
     (Inr ([(''error'', PStr ''config.json not found'')], 500),
      \<lparr>model = Some (ModelHandle 0), device = Some ''cuda:1''\<rparr>, demo_fs)
   \<and> infer demo_libs \<lparr>model = Some (ModelHandle 0), device = Some ''cuda:1''\<rparr> ''p0''
       = infer demo_libs (demo_state\<lparr>device := Some ''cuda:1''\<rparr>) ''p0''"
proof -
  let ?file = "\<lparr>filename = ''m.tar'', file_bytes = ''tar4''\<rparr>"
  let ?req = "\<lparr>form_device = ''cuda:1'', form_file = Some ?file\<rparr>"
  let ?st1 = "\<lparr>model = Some (ModelHandle 0), device = Some ''cuda:1''\<rparr>"
  let ?fs4 = "[(''/tmp'', Dir), (''/srv'', Dir), (''/srv/notes.txt'', File ''keep''),
               (''/tmp/tmpab'', Dir), (''/tmp/tmpab/policy'', Dir),
               (''/tmp/tmpab/policy/readme.txt'', File ''hi'')]"
  have h1: "assign_device demo_libs demo_state ?req = Inr ?st1" by code_simp
  have h2: "form_file ?req = Some ?file" by simp
  have h3: "filename ?file \<noteq> []" by simp
  have h4: "endswith (filename ?file) ''.tar''" by code_simp
  have h5: "extract_archive demo_libs demo_host demo_fs ?file = (Inr ''/tmp/tmpab/policy'', ?fs4)"
    by code_simp
  have h6: "load_model demo_libs ''/tmp/tmpab/policy'' (device ?st1) ?fs4
              = Inl (OtherException ''config.json not found'')"
    by code_simp
  have r: "rmtree ?fs4 (new_temp_dir demo_host) = demo_fs" by code_simp
  from load_failure_keeps_model[OF h1 h2 h3 h4 h5 h6, of "''p0''"] r show ?thesis
    by (simp add: demo_state_def)
qed

text \<open>White space outside ASCII is stripped as well: a no-break space (U+00A0) before
  the name and an em space (U+2003) after it are removed, and a field of one no-break
  space is blank, so that the device stays as it was.\<close>

lemma py_strip_examples:
  "py_strip ([CHR 0xC2, CHR 0xA0] @ ''cuda:1'' @ [CHR 0xE2, CHR 0x80, CHR 0x83]) = ''cuda:1''
   \<and> py_strip [CHR 0xC2, CHR 0xA0] = []
   \<and> py_strip '' cuda : 1 '' = ''cuda : 1''"
  by code_simp

lemma no_break_space_device_blank:
  "update_model demo_libs demo_host demo_state demo_fs
       \<lparr>form_device = [CHR 0xC2, CHR 0xA0], form_file = None\<rparr> =
     (Inr ([(''error'', PStr ''No file part'')], 400),
      \<lparr>model = Some (ModelHandle 0), device = Some ''cpu''\<rparr>, demo_fs)"
  by code_simp




section \<open>Properties of the binary decoder\<close>

text \<open>
  Claim C9 at its failing input. Loading the 21-byte stream \<open>os_system_pickle\<close> makes
  the unpickler call the global \<open>os.system\<close> with the argument \<open>'id'\<close> that the stream
  itself supplies, and return the result of that call as the decoded value: decoding
  runs a command chosen by whoever sent the bytes.
\<close>

theorem unpickling_calls_named_global:
  "binary_to_dict_calls os_system_pickle = [Call ''os'' ''system'' [PvStr ''id'']]
   \<and> vm_mode (pickle_machine os_system_pickle) = Stopped (PvResult 0)"
  by code_simp

end
